theory Spec2Isabelle
  imports Complex_Main "HOL-Library.Word"
begin

section \<open>Python values shared by all components\<close>

text \<open>
  Exceptions are values.  Every constructor below is a subclass of Python's
  \<open>Exception\<close>, which is what the handlers \<open>except Exception\<close> of the
  sources catch.
\<close>

datatype exn =
    KeyError | TypeError | AttributeError | IndexError | ZeroDivisionError
  | Timeout | RequestException | TimeoutExpired | OSError | OtherException

definition bind_exn :: "exn + 'a \<Rightarrow> ('a \<Rightarrow> exn + 'b) \<Rightarrow> exn + 'b" where
  "bind_exn m f = (case m of Inl e \<Rightarrow> Inl e | Inr x \<Rightarrow> f x)"

text \<open>
  \<open>str.strip()\<close>, \<open>str.lower()\<close>, \<open>str.upper()\<close> and \<open>str.split()\<close> on ASCII
  text.  The whitespace characters are those of Python's \<open>str.isspace\<close> below 128.
\<close>

definition is_space :: "char \<Rightarrow> bool" where
  "is_space c \<longleftrightarrow> (of_char c :: nat) \<in> {9, 10, 11, 12, 13, 28, 29, 30, 31, 32}"

definition strip :: "string \<Rightarrow> string" where
  "strip s = rev (dropWhile is_space (rev (dropWhile is_space s)))"

definition lower_char :: "char \<Rightarrow> char" where
  "lower_char c =
     (if 65 \<le> (of_char c :: nat) \<and> (of_char c :: nat) \<le> 90
      then char_of ((of_char c :: nat) + 32) else c)"

definition upper_char :: "char \<Rightarrow> char" where
  "upper_char c =
     (if 97 \<le> (of_char c :: nat) \<and> (of_char c :: nat) \<le> 122
      then char_of ((of_char c :: nat) - 32) else c)"

definition lower :: "string \<Rightarrow> string" where
  "lower s = map lower_char s"

definition upper :: "string \<Rightarrow> string" where
  "upper s = map upper_char s"

text \<open>\<open>split_acc cur s\<close>: \<open>cur\<close> is the word being read, reversed.\<close>

fun split_acc :: "string \<Rightarrow> string \<Rightarrow> string list" where
  "split_acc cur [] = (if cur = [] then [] else [rev cur])"
| "split_acc cur (c # cs) =
     (if is_space c
      then (if cur = [] then split_acc [] cs else rev cur # split_acc [] cs)
      else split_acc (c # cur) cs)"

definition split :: "string \<Rightarrow> string list" where
  "split s = split_acc [] s"

fun join :: "string \<Rightarrow> string list \<Rightarrow> string" where
  "join sep [] = []"
| "join sep [w] = w"
| "join sep (w # ws) = w @ sep @ join sep ws"

text \<open>\<open>needle in haystack\<close> on strings: substring test.\<close>

fun starts_with :: "'a list \<Rightarrow> 'a list \<Rightarrow> bool" where
  "starts_with [] ys = True"
| "starts_with (x # xs) [] = False"
| "starts_with (x # xs) (y # ys) = (x = y \<and> starts_with xs ys)"

fun contains :: "'a list \<Rightarrow> 'a list \<Rightarrow> bool" where
  "contains xs [] = (xs = [])"
| "contains xs (y # ys) = (starts_with xs (y # ys) \<or> contains xs ys)"

text \<open>
  An insertion-ordered \<open>dict\<close> is an association list whose keys are
  distinct.  Assigning to a key that is present keeps its position; a new key goes to
  the end; \<open>del\<close> of a missing key raises \<open>KeyError\<close>.
\<close>

type_synonym ('k, 'v) dict = "('k \<times> 'v) list"

definition keys :: "('k, 'v) dict \<Rightarrow> 'k list" where
  "keys d = map fst d"

definition dict_get :: "('k, 'v) dict \<Rightarrow> 'k \<Rightarrow> 'v option" where
  "dict_get d k = map_of d k"

definition dict_set :: "('k, 'v) dict \<Rightarrow> 'k \<Rightarrow> 'v \<Rightarrow> ('k, 'v) dict" where
  "dict_set d k v =
     (if k \<in> set (keys d) then map (\<lambda>(k', v'). if k' = k then (k', v) else (k', v')) d
      else d @ [(k, v)])"

definition dict_del :: "('k, 'v) dict \<Rightarrow> 'k \<Rightarrow> exn + ('k, 'v) dict" where
  "dict_del d k =
     (if k \<in> set (keys d) then Inr (filter (\<lambda>(k', v'). k' \<noteq> k) d) else Inl KeyError)"

section \<open>JSON payloads (the value of \<open>response.json()\<close>)\<close>

datatype json =
    JNull | JBool bool | JNum real | JStr string
  | JArr "json list" | JObj "(string \<times> json) list"

text \<open>\<open>key in r\<close>, \<open>r[key]\<close>, \<open>len(r)\<close>, \<open>r[0]\<close> and \<open>r.strip()\<close> as Python
  evaluates them on a decoded JSON value.\<close>

definition py_in :: "string \<Rightarrow> json \<Rightarrow> exn + bool" where
  "py_in key r =
     (case r of
        JObj kv \<Rightarrow> Inr (key \<in> set (map fst kv))
      | JArr xs \<Rightarrow> Inr (JStr key \<in> set xs)
      | JStr s \<Rightarrow> Inr (contains key s)
      | _ \<Rightarrow> Inl TypeError)"

definition py_getitem :: "json \<Rightarrow> string \<Rightarrow> exn + json" where
  "py_getitem r key =
     (case r of
        JObj kv \<Rightarrow> (case map_of kv key of None \<Rightarrow> Inl KeyError | Some v \<Rightarrow> Inr v)
      | _ \<Rightarrow> Inl TypeError)"

definition py_len :: "json \<Rightarrow> exn + nat" where
  "py_len r =
     (case r of
        JObj kv \<Rightarrow> Inr (length kv)
      | JArr xs \<Rightarrow> Inr (length xs)
      | JStr s \<Rightarrow> Inr (length s)
      | _ \<Rightarrow> Inl TypeError)"

definition py_index0 :: "json \<Rightarrow> exn + json" where
  "py_index0 r =
     (case r of
        JArr xs \<Rightarrow> (case xs of [] \<Rightarrow> Inl IndexError | x # _ \<Rightarrow> Inr x)
      | JStr s \<Rightarrow> (case s of [] \<Rightarrow> Inl IndexError | c # _ \<Rightarrow> Inr (JStr [c]))
      | JObj kv \<Rightarrow> Inl KeyError
      | _ \<Rightarrow> Inl TypeError)"

definition py_strip :: "json \<Rightarrow> exn + string" where
  "py_strip r = (case r of JStr s \<Rightarrow> Inr (strip s) | _ \<Rightarrow> Inl AttributeError)"

section \<open>config.py\<close>

definition SAMPLE_RATE :: int where
  "SAMPLE_RATE = 16000"

definition CHUNK_DURATION :: real where
  "CHUNK_DURATION = 3"

definition SILENCE_THRESHOLD :: real where
  "SILENCE_THRESHOLD = 1 / 100"

definition PRIMARY_MODEL :: string where
  "PRIMARY_MODEL = ''openai/gpt-4-turbo''"

definition FALLBACK_MODEL :: string where
  "FALLBACK_MODEL = ''openai/gpt-3.5-turbo''"

definition VIRTUAL_AUDIO_DEVICES :: "string list" where
  "VIRTUAL_AUDIO_DEVICES =
     [''VB-Audio'', ''CABLE'', ''Stereo Mix'', ''What U Hear'',
      ''Virtual Audio Cable'', ''VoiceMeeter'']"

section \<open>ai_handler.py: AIResponseHandler\<close>

text \<open>
  The request handed to \<open>session.post\<close>: the model and the two messages (the
  other fields of the payload are constants).  What \<open>session.post\<close> does is the
  environment's choice: it raises, or it returns a response with a status code and
  a body that \<open>response.json()\<close> decodes or fails to decode.
\<close>

record payload =
  p_model :: string
  p_system :: string
  p_user :: string

datatype post_outcome = Raises exn | Response int "exn + json"

text \<open>
  The handler's fields.  \<open>sent\<close> is not a field of the class: it records, in
  order, every request handed to \<open>session.post\<close>, so that "the network is
  attempted" is a fact about the state.  Times are real numbers.
\<close>

record handler =
  response_cache :: "(string, string \<times> string) dict"
  request_count :: int
  total_response_time :: real
  sent :: "payload list"

text \<open>What one call of \<open>get_response\<close> meets: the transport, and the two readings
  of \<open>time.time()\<close>.\<close>

record env =
  post :: "payload \<Rightarrow> post_outcome"
  clock_start :: real
  clock_end :: real

definition init_handler :: handler where
  "init_handler =
     \<lparr>response_cache = [], request_count = 0, total_response_time = 0, sent = []\<rparr>"

definition nl :: string where
  "nl = [CHR 0x0A]"

definition system_prompts :: "(string, string) dict" where
  "system_prompts =
     [(''data_science'',
       ''You are a senior data scientist preparing a candidate for a live technical interview. ''
       @ nl @ ''            Provide brief, precise, and confident answers to data science interview questions, including Python, ML, SQL, and statistics. ''
       @ nl @ ''            Keep responses under 150 words and focus on key points that demonstrate expertise.''),
      (''general'',
       ''You are an expert technical interview coach. Provide concise, accurate answers to technical questions. ''
       @ nl @ ''            Focus on demonstrating deep understanding while keeping responses brief and actionable.''),
      (''coding'',
       ''You are a senior software engineer helping with coding interview preparation. ''
       @ nl @ ''            Provide clear, efficient solutions with brief explanations. Focus on optimal approaches and common patterns.'')]"

definition system_prompt_for :: "string \<Rightarrow> string" where
  "system_prompt_for context =
     (case dict_get system_prompts context of
        Some p \<Rightarrow> p
      | None \<Rightarrow> the (dict_get system_prompts ''general''))"

definition enhance_question :: "string \<Rightarrow> string" where
  "enhance_question question =
     (let enhanced = strip question
      in if length enhanced < 20
         then ''Please provide a comprehensive answer to: '' @ enhanced
         else enhanced)"

definition words_to_remove :: "string list" where
  "words_to_remove =
     [''can'', ''you'', ''please'', ''what'', ''is'', ''the'', ''how'', ''do'', ''does'']"

definition get_cache_key :: "string \<Rightarrow> string \<Rightarrow> string" where
  "get_cache_key question context =
     (let normalized = strip (lower question);
          words = split normalized;
          key_words = filter (\<lambda>w. w \<notin> set words_to_remove \<and> length w > 2) words
      in context @ '':'' @ join ''_'' (take 5 key_words))"

definition get_cached_response :: "handler \<Rightarrow> string \<Rightarrow> (string \<times> string) option" where
  "get_cached_response h cache_key = dict_get (response_cache h) cache_key"

text \<open>The \<open>for key in keys_to_remove: del ...\<close> loop.\<close>

fun del_all :: "('k, 'v) dict \<Rightarrow> 'k list \<Rightarrow> exn + ('k, 'v) dict" where
  "del_all d [] = Inr d"
| "del_all d (k # ks) = bind_exn (dict_del d k) (\<lambda>d'. del_all d' ks)"

definition cache_response ::
  "handler \<Rightarrow> string \<Rightarrow> string \<times> string \<Rightarrow> exn + handler" where
  "cache_response h cache_key response_data =
     bind_exn
       (if length (response_cache h) > 50
        then del_all (response_cache h) (take 10 (keys (response_cache h)))
        else Inr (response_cache h))
       (\<lambda>c. Inr (h\<lparr>response_cache := dict_set c cache_key response_data\<rparr>))"

text \<open>The body of the \<open>try\<close> of \<open>_try_model\<close>, after \<open>session.post\<close> has answered.\<close>

definition try_model_body :: "post_outcome \<Rightarrow> string \<Rightarrow> exn + (string option \<times> string)" where
  "try_model_body out mdl =
     (case out of
        Raises e \<Rightarrow> Inl e
      | Response status_code body \<Rightarrow>
          if status_code = 200 then
            bind_exn body (\<lambda>result.
            bind_exn (py_in ''choices'' result) (\<lambda>has_choices.
            if \<not> has_choices then Inr (None, mdl) else
            bind_exn (py_getitem result ''choices'') (\<lambda>choices.
            bind_exn (py_len choices) (\<lambda>n.
            if n > 0 then
              bind_exn (py_index0 choices) (\<lambda>first.
              bind_exn (py_getitem first ''message'') (\<lambda>message.
              bind_exn (py_getitem message ''content'') (\<lambda>content.
              bind_exn (py_strip content) (\<lambda>stripped.
              Inr (Some stripped, mdl)))))
            else Inr (None, mdl)))))
          else Inr (None, mdl))"

text \<open>\<open>_try_model\<close>: the request it builds, what it returns (every \<open>except\<close> clause
  returns \<open>(None, model)\<close>), and the call of \<open>session.post\<close> it leaves in the state.\<close>

definition request_for :: "string \<Rightarrow> string \<Rightarrow> string \<Rightarrow> payload" where
  "request_for question mdl context =
     \<lparr>p_model = mdl, p_system = system_prompt_for context,
      p_user = enhance_question question\<rparr>"

definition model_reply :: "env \<Rightarrow> string \<Rightarrow> string \<Rightarrow> string \<Rightarrow> string option \<times> string" where
  "model_reply e question mdl context =
     (case try_model_body (post e (request_for question mdl context)) mdl of
        Inl _ \<Rightarrow> (None, mdl)
      | Inr r \<Rightarrow> r)"

definition try_model ::
  "handler \<Rightarrow> env \<Rightarrow> string \<Rightarrow> string \<Rightarrow> string \<Rightarrow> (string option \<times> string) \<times> handler" where
  "try_model h e question mdl context =
     (model_reply e question mdl context,
      h\<lparr>sent := sent h @ [request_for question mdl context]\<rparr>)"

text \<open>Python's truth value of an \<open>Optional[str]\<close>: \<open>None\<close> and \<open>""\<close> are false.\<close>

definition truthy :: "string option \<Rightarrow> bool" where
  "truthy r = (case r of None \<Rightarrow> False | Some s \<Rightarrow> s \<noteq> [])"

definition apology :: string where
  "apology = ''I'' @ [CHR 0x27] @ ''m having trouble processing that question right now. Could you please rephrase it?''"

definition get_response ::
  "handler \<Rightarrow> env \<Rightarrow> string \<Rightarrow> string \<Rightarrow> exn + ((string \<times> string \<times> real) \<times> handler)" where
  "get_response h e question context =
     (let start_time = clock_start e;
          cache_key = get_cache_key question context
      in case get_cached_response h cache_key of
           Some cached_response \<Rightarrow>
             Inr ((fst cached_response, snd cached_response, clock_end e - start_time), h)
         | None \<Rightarrow>
            (let ((response, model_used), h1) = try_model h e question PRIMARY_MODEL context;
                 ((response, model_used), h2) =
                    (if \<not> truthy response
                     then try_model h1 e question FALLBACK_MODEL context
                     else ((response, model_used), h1));
                 (response, model_used) =
                    (if \<not> truthy response then (apology, ''fallback'')
                     else (the response, model_used));
                 response_time = clock_end e - start_time
             in bind_exn
                  (if response \<noteq> [] \<and> model_used \<noteq> ''fallback''
                   then cache_response h2 cache_key (response, model_used)
                   else Inr h2)
                  (\<lambda>h3. Inr ((response, model_used, response_time),
                              h3\<lparr>request_count := request_count h3 + 1,
                                 total_response_time := total_response_time h3 + response_time\<rparr>))))"

text \<open>\<open>round(x, 2)\<close>: to the nearest multiple of 1/100, ties to the even one.\<close>

definition round_half_even :: "real \<Rightarrow> int" where
  "round_half_even x =
     (let f = \<lfloor>x\<rfloor>; d = x - of_int f
      in if d < 1 / 2 then f else if d > 1 / 2 then f + 1
         else if even f then f else f + 1)"





section \<open>audio_manager.py: AudioManager\<close>

text \<open>
  The capture callback decodes each block with \<open>dtype=np.int16\<close> and extends the
  deque with its elements, so the buffer holds 16-bit samples, \<open>np.array\<close> of a
  slice of it is an \<open>int16\<close> array, and \<open>chunk**2\<close> is computed in 16 bits.
\<close>

type_synonym sample = "16 word"

record device_info =
  dev_name :: "string option"
  max_input_channels :: "int option"

text \<open>What PyAudio answers: each call returns or raises.\<close>

record audio_env =
  device_count :: "exn + nat"
  device_info_by_index :: "nat \<Rightarrow> exn + device_info"
  default_input_device :: "exn + (string \<times> nat)"
  open_stream :: "nat \<Rightarrow> exn + nat"
  start_stream :: "nat \<Rightarrow> exn + unit"

text \<open>
  The manager's fields.  \<open>searches\<close> and \<open>opened\<close> are not fields of the class:
  they count the device searches made and list the devices \<open>audio.open\<close> was called on.
\<close>

record 'cb audio_manager =
  stream :: "nat option"
  device_index :: "nat option"
  is_recording :: bool
  audio_buffer :: "sample list"
  callbacks :: "'cb list"
  searches :: nat
  opened :: "nat list"

definition BUFFER_MAXLEN :: nat where
  "BUFFER_MAXLEN = nat (SAMPLE_RATE * 30)"

definition is_virtual_input :: "device_info \<Rightarrow> bool" where
  "is_virtual_input info =
     (let device_name = upper (case dev_name info of None \<Rightarrow> [] | Some n \<Rightarrow> n)
      in list_ex
           (\<lambda>virtual_device.
              contains (upper virtual_device) device_name
              \<and> (case max_input_channels info of None \<Rightarrow> 0 | Some c \<Rightarrow> c) > 0)
           VIRTUAL_AUDIO_DEVICES)"

fun scan_devices :: "audio_env \<Rightarrow> nat list \<Rightarrow> exn + nat option" where
  "scan_devices a [] = Inr None"
| "scan_devices a (i # rest) =
     bind_exn (device_info_by_index a i)
       (\<lambda>info. if is_virtual_input info then Inr (Some i) else scan_devices a rest)"

definition find_virtual_audio_device :: "audio_env \<Rightarrow> nat option" where
  "find_virtual_audio_device a =
     (case bind_exn (device_count a) (\<lambda>n. scan_devices a [0..<n]) of
        Inr (Some i) \<Rightarrow> Some i
      | _ \<Rightarrow> (case default_input_device a of
                Inl _ \<Rightarrow> None
              | Inr default_device \<Rightarrow> Some (snd default_device)))"

definition start_recording ::
  "'cb audio_manager \<Rightarrow> audio_env \<Rightarrow> 'cb \<Rightarrow> bool \<times> 'cb audio_manager" where
  "start_recording s a callback =
     (if is_recording s then (False, s)
      else
        let s1 = s\<lparr>device_index := find_virtual_audio_device a,
                   searches := searches s + 1\<rparr>
        in case device_index s1 of
             None \<Rightarrow> (False, s1)
           | Some d \<Rightarrow>
              (let s2 = s1\<lparr>opened := opened s1 @ [d]\<rparr>
               in case open_stream a d of
                    Inl _ \<Rightarrow> (False, s2)
                  | Inr st \<Rightarrow>
                     (let s3 = s2\<lparr>stream := Some st,
                                   callbacks := callbacks s2 @ [callback],
                                   is_recording := True\<rparr>
                      in case start_stream a st of
                           Inl _ \<Rightarrow> (False, s3)
                         | Inr _ \<Rightarrow> (True, s3))))"

text \<open>\<open>deque(maxlen=n).extend\<close>: append, then keep the last \<open>n\<close>.\<close>

definition deque_extend :: "nat \<Rightarrow> 'a list \<Rightarrow> 'a list \<Rightarrow> 'a list" where
  "deque_extend maxlen buf xs = (let ys = buf @ xs in drop (length ys - maxlen) ys)"

definition audio_callback :: "'cb audio_manager \<Rightarrow> sample list \<Rightarrow> 'cb audio_manager" where
  "audio_callback s in_data =
     s\<lparr>audio_buffer := deque_extend BUFFER_MAXLEN (audio_buffer s) in_data\<rparr>"

text \<open>\<open>int(x)\<close> of a float truncates towards zero.\<close>

definition py_int :: "real \<Rightarrow> int" where
  "py_int x = (if x \<ge> 0 then \<lfloor>x\<rfloor> else \<lceil>x\<rceil>)"

text \<open>The slice \<open>xs[-n:]\<close>: the last \<open>n\<close> elements when \<open>n > 0\<close> (all of them when
  there are fewer), the whole list when \<open>n = 0\<close>, and \<open>xs[|n|:]\<close> when \<open>n < 0\<close>.\<close>

definition slice_from_neg :: "int \<Rightarrow> 'a list \<Rightarrow> 'a list" where
  "slice_from_neg n xs =
     (if n > 0 then drop (length xs - nat n) xs else drop (nat (- n)) xs)"

text \<open>
  Floating-point results are real numbers, or \<open>None\<close> for \<open>nan\<close>: \<open>np.mean\<close> of an
  empty array and \<open>np.sqrt\<close> of a negative number are \<open>nan\<close>, and every comparison
  with \<open>nan\<close> is false.
\<close>

definition np_mean :: "sample list \<Rightarrow> real option" where
  "np_mean xs =
     (if xs = [] then None
      else Some (real_of_int (sum_list (map sint xs)) / real (length xs)))"

definition np_sqrt :: "real option \<Rightarrow> real option" where
  "np_sqrt x = (case x of None \<Rightarrow> None | Some v \<Rightarrow> if v < 0 then None else Some (sqrt v))"

definition float_less :: "real option \<Rightarrow> real \<Rightarrow> bool" where
  "float_less x t = (case x of None \<Rightarrow> False | Some v \<Rightarrow> v < t)"

definition get_audio_chunk ::
  "'cb audio_manager \<Rightarrow> real \<Rightarrow> real list option \<times> 'cb audio_manager" where
  "get_audio_chunk s duration =
     (let samples_needed = py_int (real_of_int SAMPLE_RATE * duration)
      in if int (length (audio_buffer s)) < samples_needed then (None, s)
         else
           let chunk = slice_from_neg samples_needed (audio_buffer s);
               rms = np_sqrt (np_mean (map (\<lambda>x. x * x) chunk))
           in if float_less rms SILENCE_THRESHOLD then (None, s)
              else (Some (map (\<lambda>x. real_of_int (sint x) / 32768) chunk), s))"

section \<open>transcriber.py: WhisperTranscriber\<close>

datatype whisper_model = WhisperModel

record transcriber =
  model :: "whisper_model option"
  whisper_cpp_path :: "string option"
  model_loaded :: bool

text \<open>The dictionary \<open>model.transcribe\<close> returns: its \<open>"text"\<close>, and for each
  segment its \<open>avg_logprob\<close>, where present.\<close>

record whisper_result =
  res_text :: "string option"
  res_segments :: "real option list option"

record completed_process =
  returncode :: int
  stdout :: string
  stderr :: string

text \<open>What one call of \<open>transcribe_audio\<close> meets: the local model, the writing of
  the temporary file, the subprocess, and the removal of the file.\<close>

record transcribe_env =
  model_transcribe :: "real list \<Rightarrow> exn + whisper_result"
  temp_file :: string
  wave_write :: "string \<Rightarrow> real list \<Rightarrow> exn + unit"
  subprocess_run :: "string list \<Rightarrow> exn + completed_process"
  os_remove :: "string \<Rightarrow> exn + unit"

definition WHISPER_MODEL_SIZE :: string where
  "WHISPER_MODEL_SIZE = ''base.en''"

definition WHISPER_LANGUAGE :: string where
  "WHISPER_LANGUAGE = ''en''"

definition calculate_confidence :: "real option list \<Rightarrow> real" where
  "calculate_confidence segments =
     (if segments = [] then 0
      else
        let confidences =
              map (\<lambda>lp. min 1 (max 0 (the lp + 1))) (filter (\<lambda>lp. lp \<noteq> None) segments)
        in if confidences \<noteq> [] then sum_list confidences / real (length confidences)
           else 0)"

definition transcribe_python_body ::
  "transcribe_env \<Rightarrow> real list \<Rightarrow> exn + (string \<times> real)" where
  "transcribe_python_body e audio_data =
     bind_exn (model_transcribe e audio_data) (\<lambda>result.
       let transcript = strip (case res_text result of None \<Rightarrow> [] | Some t \<Rightarrow> t);
           confidence =
             calculate_confidence (case res_segments result of None \<Rightarrow> [] | Some g \<Rightarrow> g)
       in Inr (transcript, confidence))"

definition transcribe_with_whisper_python ::
  "transcribe_env \<Rightarrow> real list \<Rightarrow> string \<times> real" where
  "transcribe_with_whisper_python e audio_data =
     (case transcribe_python_body e audio_data of Inl _ \<Rightarrow> ([], 0) | Inr r \<Rightarrow> r)"

definition whisper_cpp_cmd :: "transcriber \<Rightarrow> transcribe_env \<Rightarrow> string list" where
  "whisper_cpp_cmd t e =
     (let model_path = ''./whisper.cpp/models/ggml-'' @ WHISPER_MODEL_SIZE @ ''.bin''
      in [the (whisper_cpp_path t), ''-m'', model_path, ''-f'', temp_file e,
          ''-nt'', ''-l'', WHISPER_LANGUAGE])"

definition transcribe_cpp_body ::
  "transcriber \<Rightarrow> transcribe_env \<Rightarrow> real list \<Rightarrow> exn + (string \<times> real)" where
  "transcribe_cpp_body t e audio_data =
     bind_exn (wave_write e (temp_file e) audio_data) (\<lambda>_.
       let cmd = whisper_cpp_cmd t e
       in bind_exn (subprocess_run e cmd) (\<lambda>result.
            let removed = (case os_remove e (temp_file e) of Inl _ \<Rightarrow> () | Inr _ \<Rightarrow> ())
            in if returncode result = 0 then Inr (strip (stdout result), 8 / 10)
               else Inr ([], 0)))"

definition transcribe_with_whisper_cpp ::
  "transcriber \<Rightarrow> transcribe_env \<Rightarrow> real list \<Rightarrow> string \<times> real" where
  "transcribe_with_whisper_cpp t e audio_data =
     (case transcribe_cpp_body t e audio_data of Inl _ \<Rightarrow> ([], 0) | Inr r \<Rightarrow> r)"

definition transcribe_audio :: "transcriber \<Rightarrow> transcribe_env \<Rightarrow> real list \<Rightarrow> string \<times> real" where
  "transcribe_audio t e audio_data =
     (if model_loaded t \<and> model t \<noteq> None then transcribe_with_whisper_python e audio_data
      else if whisper_cpp_path t \<noteq> None \<and> whisper_cpp_path t \<noteq> Some []
      then transcribe_with_whisper_cpp t e audio_data
      else ([], 0))"

definition is_ready :: "transcriber \<Rightarrow> bool" where
  "is_ready t \<longleftrightarrow> model_loaded t \<or> whisper_cpp_path t \<noteq> None"

section \<open>main.py: AudioProcessingThread\<close>

datatype signal =
    TranscriptionReady string real
  | ErrorOccurred string
  | StatusChanged string

record thread_state =
  running :: bool
  processing :: bool

text \<open>
  What one pass of the \<open>while\<close> loop meets: the value of \<open>get_audio_chunk\<close>,
  what \<open>transcribe_audio\<close> does with it (\<open>Inl\<close> is an exception, by its message),
  and whether \<open>stop\<close> has been called by the time the pass ends.
\<close>

record iteration =
  chunk_read :: "real list option"
  transcription :: "string + (string \<times> real)"
  stop_called :: bool

definition loop_body :: "thread_state \<Rightarrow> iteration \<Rightarrow> thread_state \<times> signal list" where
  "loop_body s it =
     (if \<not> processing s then
        (case chunk_read it of
           None \<Rightarrow> (s, [])
         | Some audio_chunk \<Rightarrow>
             if length audio_chunk > 0 then
               (s\<lparr>processing := True, processing := False\<rparr>,
                StatusChanged ''processing'' #
                (case transcription it of
                   Inl msg \<Rightarrow> [ErrorOccurred (''Transcription error: '' @ msg)]
                 | Inr (transcript, confidence) \<Rightarrow>
                     if transcript \<noteq> [] \<and> length (strip transcript) > 3
                     then [TranscriptionReady transcript confidence]
                     else [StatusChanged ''listening'']))
             else (s, []))
      else (s, []))"

text \<open>The \<open>while self.running\<close> loop, over the passes it makes.\<close>

fun run_loop :: "thread_state \<Rightarrow> iteration list \<Rightarrow> thread_state \<times> signal list" where
  "run_loop s [] = (s, [])"
| "run_loop s (it # its) =
     (if running s then
        (let (s1, ev) = loop_body s it;
             s2 = s1\<lparr>running := running s1 \<and> \<not> stop_called it\<rparr>;
             (s3, evs) = run_loop s2 its
         in (s3, ev @ evs))
      else (s, []))"


section \<open>Notions the properties are stated with\<close>

text \<open>The class invariant of the handler: the cache is a dictionary (its keys are
  distinct) and no cached answer is empty.\<close>

definition wf_handler :: "handler \<Rightarrow> bool" where
  "wf_handler h \<longleftrightarrow>
     distinct (keys (response_cache h)) \<and> list_all (\<lambda>kv. fst (snd kv) \<noteq> []) (response_cache h)"

text \<open>A model yields usable content: \<open>_try_model\<close> returns a string that is not empty.\<close>

definition usable :: "env \<Rightarrow> string \<Rightarrow> string \<Rightarrow> string \<Rightarrow> bool" where
  "usable e question mdl context = truthy (fst (model_reply e question mdl context))"

text \<open>A chat-completion body whose first choice carries the given content.\<close>

definition chat_body :: "string \<Rightarrow> json" where
  "chat_body c = JObj [(''choices'', JArr [JObj [(''message'', JObj [(''content'', JStr c)])]])]"

text \<open>A sequence of calls of \<open>get_response\<close> on one handler; each call brings its
  environment, its question and its context.\<close>

type_synonym call = "env \<times> string \<times> string"



fun run_calls :: "handler \<Rightarrow> call list \<Rightarrow> exn + handler" where
  "run_calls h [] = Inr h"
| "run_calls h (c # cs) =
     bind_exn (get_response h (fst c) (fst (snd c)) (snd (snd c))) (\<lambda>r. run_calls (snd r) cs)"


text \<open>Concrete calls: the transport answers every request with HTTP 200 and the
  content \<open>ok\<close>; the \<open>i\<close>-th question is the letter \<open>a\<close> written \<open>i + 3\<close> times.\<close>

definition ok_env :: env where
  "ok_env = \<lparr>post = (\<lambda>p. Response 200 (Inr (chat_body ''ok''))), clock_start = 0, clock_end = 1\<rparr>"





definition counters_after :: "call list \<Rightarrow> (int \<times> real) option" where
  "counters_after cs =
     (case run_calls init_handler cs of
        Inl _ \<Rightarrow> None
      | Inr h \<Rightarrow> Some (request_count h, total_response_time h))"



definition gate_closed :: "sample list \<Rightarrow> bool" where
  "gate_closed chunk = float_less (np_sqrt (np_mean (map (\<lambda>x. x * x) chunk))) SILENCE_THRESHOLD"

text \<open>Concrete managers: idle ones whose buffers hold one and two samples of value 100,
  and one that is recording.\<close>

definition manager_with :: "sample list \<Rightarrow> nat audio_manager" where
  "manager_with buf =
     \<lparr>stream = None, device_index = None, is_recording = False, audio_buffer = buf,
      callbacks = [], searches = 0, opened = []\<rparr>"

definition recording_manager :: "nat audio_manager" where
  "recording_manager =
     \<lparr>stream = Some 0, device_index = Some 3, is_recording = True, audio_buffer = [100, 100],
      callbacks = [7], searches = 1, opened = [3]\<rparr>"

definition no_device_env :: audio_env where
  "no_device_env =
     \<lparr>device_count = Inr 0, device_info_by_index = (\<lambda>i. Inl OSError),
      default_input_device = Inl OSError, open_stream = (\<lambda>d. Inl OSError),
      start_stream = (\<lambda>st. Inl OSError)\<rparr>"

text \<open>Concrete transcribers and environments: the local model raises; the subprocess
  exits with code 1; the subprocess times out.\<close>

definition python_transcriber :: transcriber where
  "python_transcriber =
     \<lparr>model = Some WhisperModel, whisper_cpp_path = None, model_loaded = True\<rparr>"

definition cpp_transcriber :: transcriber where
  "cpp_transcriber =
     \<lparr>model = None, whisper_cpp_path = Some ''whisper-cpp'', model_loaded = False\<rparr>"

definition no_transcriber :: transcriber where
  "no_transcriber = \<lparr>model = None, whisper_cpp_path = None, model_loaded = False\<rparr>"

definition failing_env :: "exn + completed_process \<Rightarrow> transcribe_env" where
  "failing_env outcome =
     \<lparr>model_transcribe = (\<lambda>a. Inl OtherException), temp_file = ''./temp/temp_audio_0.wav'',
      wave_write = (\<lambda>f a. Inr ()), subprocess_run = (\<lambda>cmd. outcome),
      os_remove = (\<lambda>f. Inr ())\<rparr>"

section \<open>The response cache and the fallback chain\<close>

lemma bind_exn_Inl [simp]: "bind_exn (Inl e) f = Inl e"
  by (simp add: bind_exn_def)

lemma bind_exn_Inr [simp]: "bind_exn (Inr x) f = f x"
  by (simp add: bind_exn_def)

lemma keys_simps [simp]:
  "keys [] = []" "keys (x # d) = fst x # keys d" "keys (d @ d') = keys d @ keys d'"
  "length (keys d) = length d" "keys (drop n d) = drop n (keys d)"
  by (simp_all add: keys_def drop_map)










lemma PRIMARY_not_fallback [simp]: "PRIMARY_MODEL \<noteq> ''fallback''"
  by (simp add: PRIMARY_MODEL_def)

lemma FALLBACK_not_fallback [simp]: "FALLBACK_MODEL \<noteq> ''fallback''"
  by (simp add: FALLBACK_MODEL_def)





lemma apology_nonempty [simp]: "apology \<noteq> []"
  by (simp add: apology_def)






lemma wf_handler_other_fields [simp]:
  "wf_handler (h\<lparr>sent := s\<rparr>) = wf_handler h"
  "wf_handler (h\<lparr>request_count := n\<rparr>) = wf_handler h"
  "wf_handler (h\<lparr>total_response_time := t\<rparr>) = wf_handler h"
  by (simp_all add: wf_handler_def)








text \<open>The concrete calls: their cache keys are distinct, and each is answered.\<close>

lemma not_space_a [simp]: "\<not> is_space (CHR ''a'')"
  by (simp add: is_space_def)






lemma usable_ok_env [simp]: "usable ok_env q mdl ctx"
  by (simp add: usable_def model_reply_def ok_env_def try_model_body_def chat_body_def
      py_in_def py_getitem_def py_len_def py_index0_def py_strip_def strip_def is_space_def
      truthy_def)


section \<open>Claims about the response cache and the fallback chain\<close>




text \<open>
  C2.  The claim is that every call of \<open>get_response\<close>, a cache hit included, adds 1
  to \<open>request_count\<close> and its elapsed time to \<open>total_response_time\<close>.  The source
  returns from the cache-hit branch before the lines under \<open># Update metrics\<close>: after
  one answered call the counters are 1 and 1 second, and after a second call with the
  same question, a cache hit, they are still 1 and 1 second.
\<close>

theorem cache_hit_skips_counters:
  "counters_after [(ok_env, ''What is AI?'', ''general'')] = Some (1, 1)
   \<and> counters_after [(ok_env, ''What is AI?'', ''general''),
                     (ok_env, ''What is AI?'', ''general'')] = Some (1, 1)"
  by code_simp









section \<open>Claims about the statistics\<close>

lemma round_half_even_0 [simp]: "round_half_even 0 = 0"
  by (simp add: round_half_even_def)





section \<open>Claims about the orchestrator loop\<close>

lemma loop_body_processing: "\<not> processing s \<Longrightarrow> \<not> processing (fst (loop_body s it))"
  by (simp add: loop_body_def split: option.splits sum.splits)

lemma run_loop_processing: "\<not> processing s \<Longrightarrow> \<not> processing (fst (run_loop s its))"
proof (induction its arbitrary: s)
  case Nil
  then show ?case by simp
next
  case (Cons it its)
  obtain s1 ev where b: "loop_body s it = (s1, ev)" by (cases "loop_body s it")
  have p1: "\<not> processing s1"
    using loop_body_processing [OF Cons.prems, of it] by (simp add: b)
  obtain s3 evs where r: "run_loop (s1\<lparr>running := running s1 \<and> \<not> stop_called it\<rparr>) its = (s3, evs)"
    by (cases "run_loop (s1\<lparr>running := running s1 \<and> \<not> stop_called it\<rparr>) its")
  have "\<not> processing s3"
    using Cons.IH [of "s1\<lparr>running := running s1 \<and> \<not> stop_called it\<rparr>"] p1 by (simp add: r)
  then show ?case
    using Cons.prems by (simp add: b r)
qed

lemma strip_Nil [simp]: "strip [] = []"
  by (simp add: strip_def)



section \<open>Claims about the audio manager\<close>

text \<open>When no recording is in progress, \<open>start_recording\<close> does search for a device.\<close>

lemma start_recording_idle_searches:
  "\<not> is_recording s \<Longrightarrow> searches (snd (start_recording s a callback)) = searches s + 1"
  by (simp add: start_recording_def Let_def split: option.splits sum.splits)

text \<open>
  C9.  While a recording is in progress, \<open>start_recording\<close> returns \<open>False\<close> and
  leaves the whole state as it was: the stream, the device index, the recording flag,
  the callbacks and the buffer, and also the count of device searches and the list of
  devices opened.
\<close>

theorem start_recording_while_recording:
  "is_recording s \<Longrightarrow> start_recording s a callback = (False, s)"
  by (simp add: start_recording_def)

theorem start_recording_while_recording_witness:
  "is_recording recording_manager
   \<and> start_recording recording_manager no_device_env 8 = (False, recording_manager)"
  using start_recording_while_recording [of recording_manager no_device_env 8]
  by (simp add: recording_manager_def)

section \<open>Claims about the transcriber\<close>

text \<open>
  C8.  \<open>transcribe_audio\<close> returns a pair in every case: the two paths catch every
  exception of their bodies.  It returns the sentinel \<open>("", 0.0)\<close> when the local
  model raises; when, on the fallback path, the writing of the temporary file raises,
  the subprocess raises (a timeout included) or exits with a non-zero code; and when
  neither engine is available.
\<close>

theorem transcribe_audio_sentinel:
  "((model_loaded t \<and> model t \<noteq> None) \<and> (\<exists>x. model_transcribe e a = Inl x)
      \<longrightarrow> transcribe_audio t e a = ([], 0))
   \<and> (\<not> (model_loaded t \<and> model t \<noteq> None)
        \<and> whisper_cpp_path t \<noteq> None \<and> whisper_cpp_path t \<noteq> Some []
        \<and> ((\<exists>x. wave_write e (temp_file e) a = Inl x)
             \<or> (\<exists>x. subprocess_run e (whisper_cpp_cmd t e) = Inl x)
             \<or> (\<exists>r. subprocess_run e (whisper_cpp_cmd t e) = Inr r \<and> returncode r \<noteq> 0))
      \<longrightarrow> transcribe_audio t e a = ([], 0))
   \<and> (\<not> (model_loaded t \<and> model t \<noteq> None)
        \<and> (whisper_cpp_path t = None \<or> whisper_cpp_path t = Some [])
      \<longrightarrow> transcribe_audio t e a = ([], 0))"
proof (intro conjI impI)
  assume "(model_loaded t \<and> model t \<noteq> None) \<and> (\<exists>x. model_transcribe e a = Inl x)"
  then show "transcribe_audio t e a = ([], 0)"
    by (auto simp: transcribe_audio_def transcribe_with_whisper_python_def
        transcribe_python_body_def bind_exn_def)
next
  assume a: "\<not> (model_loaded t \<and> model t \<noteq> None)
        \<and> whisper_cpp_path t \<noteq> None \<and> whisper_cpp_path t \<noteq> Some []
        \<and> ((\<exists>x. wave_write e (temp_file e) a = Inl x)
             \<or> (\<exists>x. subprocess_run e (whisper_cpp_cmd t e) = Inl x)
             \<or> (\<exists>r. subprocess_run e (whisper_cpp_cmd t e) = Inr r \<and> returncode r \<noteq> 0))"
  then have body: "transcribe_cpp_body t e a = Inr ([], 0) \<or> (\<exists>x. transcribe_cpp_body t e a = Inl x)"
    by (cases "wave_write e (temp_file e) a")
      (auto simp: transcribe_cpp_body_def bind_exn_def Let_def)
  have "transcribe_audio t e a = transcribe_with_whisper_cpp t e a"
    using a by (auto simp: transcribe_audio_def)
  then show "transcribe_audio t e a = ([], 0)"
    using body by (auto simp: transcribe_with_whisper_cpp_def)
next
  assume "\<not> (model_loaded t \<and> model t \<noteq> None)
        \<and> (whisper_cpp_path t = None \<or> whisper_cpp_path t = Some [])"
  then show "transcribe_audio t e a = ([], 0)"
    by (auto simp: transcribe_audio_def)
qed

theorem transcribe_audio_sentinel_witness:
  "transcribe_audio python_transcriber (failing_env (Inl TimeoutExpired)) [1 / 2] = ([], 0)
   \<and> transcribe_audio cpp_transcriber (failing_env (Inl TimeoutExpired)) [1 / 2] = ([], 0)
   \<and> transcribe_audio cpp_transcriber
        (failing_env (Inr \<lparr>returncode = 1, stdout = ''partial'', stderr = ''error''\<rparr>)) [1 / 2]
       = ([], 0)
   \<and> transcribe_audio no_transcriber (failing_env (Inl TimeoutExpired)) [1 / 2] = ([], 0)"
  using
    transcribe_audio_sentinel [of python_transcriber "failing_env (Inl TimeoutExpired)" "[1 / 2]"]
    transcribe_audio_sentinel [of cpp_transcriber "failing_env (Inl TimeoutExpired)" "[1 / 2]"]
    transcribe_audio_sentinel [of cpp_transcriber
      "failing_env (Inr \<lparr>returncode = 1, stdout = ''partial'', stderr = ''error''\<rparr>)" "[1 / 2]"]
    transcribe_audio_sentinel [of no_transcriber "failing_env (Inl TimeoutExpired)" "[1 / 2]"]
  by (simp add: python_transcriber_def cpp_transcriber_def no_transcriber_def failing_env_def)

text \<open>The sentinel is not all there is: a subprocess that exits with code 0 is transcribed.\<close>

lemma transcribe_audio_cpp_success:
  "transcribe_audio cpp_transcriber
     (failing_env (Inr \<lparr>returncode = 0, stdout = ''Test transcript'', stderr = []\<rparr>)) [1 / 2]
   = (''Test transcript'', 8 / 10)"
  by (simp add: transcribe_audio_def cpp_transcriber_def failing_env_def
      transcribe_with_whisper_cpp_def transcribe_cpp_body_def bind_exn_def Let_def
      strip_def is_space_def)

section \<open>Claims about the chunk extractor\<close>

lemma sqrt_less_iff_square: "0 \<le> t \<Longrightarrow> sqrt v < t \<longleftrightarrow> v < t\<^sup>2"
proof -
  assume t: "0 \<le> t"
  have "sqrt v < sqrt (t\<^sup>2) \<longleftrightarrow> v < t\<^sup>2"
    by (rule real_sqrt_less_iff)
  then show ?thesis
    using t by simp
qed

lemma float_less_sqrt:
  "float_less (np_sqrt (Some m)) SILENCE_THRESHOLD \<longleftrightarrow> 0 \<le> m \<and> m < 1 / 10000"
proof -
  have sq: "(1 / 100 :: real)\<^sup>2 = 1 / 10000"
    by (simp add: power2_eq_square)
  have "sqrt m < 1 / 100 \<longleftrightarrow> m < 1 / 10000"
    using sqrt_less_iff_square [of "1 / 100" m] by (simp only: sq)
  then show ?thesis
    by (cases "m < 0") (simp_all add: np_sqrt_def float_less_def SILENCE_THRESHOLD_def)
qed

text \<open>The gate, without the square root.\<close>

lemma gate_closed_iff:
  "gate_closed chunk \<longleftrightarrow>
     chunk \<noteq> [] \<and> 0 \<le> sum_list (map (\<lambda>x. sint (x * x)) chunk)
     \<and> real_of_int (sum_list (map (\<lambda>x. sint (x * x)) chunk)) / real (length chunk) < 1 / 10000"
proof (cases "chunk = []")
  case True
  then show ?thesis
    by (simp add: gate_closed_def np_mean_def np_sqrt_def float_less_def)
next
  case False
  define k where "k = sum_list (map (\<lambda>x. sint (x * x)) chunk)"
  have m: "map sint (map (\<lambda>x. x * x) chunk) = map (\<lambda>x. sint (x * x)) chunk"
    by simp
  have mean: "np_mean (map (\<lambda>x. x * x) chunk) = Some (real_of_int k / real (length chunk))"
    using False by (simp add: np_mean_def k_def comp_def)
  have pos: "0 < real (length chunk)"
    using False by simp
  have nonneg: "0 \<le> real_of_int k / real (length chunk) \<longleftrightarrow> 0 \<le> k"
    using pos by (simp add: zero_le_divide_iff)
  have "gate_closed chunk \<longleftrightarrow>
      0 \<le> real_of_int k / real (length chunk) \<and> real_of_int k / real (length chunk) < 1 / 10000"
    by (simp only: gate_closed_def mean float_less_sqrt)
  then have "gate_closed chunk \<longleftrightarrow>
      chunk \<noteq> [] \<and> 0 \<le> k \<and> real_of_int k / real (length chunk) < 1 / 10000"
    using False by (simp only: nonneg) blast
  then show ?thesis
    by (simp only: k_def)
qed

lemma get_audio_chunk_eq:
  "get_audio_chunk s d =
     (if int (length (audio_buffer s)) < py_int (real_of_int SAMPLE_RATE * d) then (None, s)
      else if gate_closed (slice_from_neg (py_int (real_of_int SAMPLE_RATE * d)) (audio_buffer s))
      then (None, s)
      else (Some (map (\<lambda>x. real_of_int (sint x) / 32768)
                   (slice_from_neg (py_int (real_of_int SAMPLE_RATE * d)) (audio_buffer s))), s))"
  by (simp add: get_audio_chunk_def gate_closed_def Let_def)





lemma audio_callback_capacity:
  "length (audio_buffer (audio_callback s in_data)) \<le> BUFFER_MAXLEN"
  by (simp add: audio_callback_def deque_extend_def Let_def)


lemma needed_samples [simp]:
  "py_int (real_of_int SAMPLE_RATE / 8192) = 1"
  "py_int (real_of_int SAMPLE_RATE / 8) = 2000"
  "py_int (real_of_int SAMPLE_RATE / 8000) = 2"
  "py_int 0 = 0"
  by (simp_all add: py_int_def SAMPLE_RATE_def)


lemma gate_open_100 [simp]:
  "\<not> gate_closed [100]" "\<not> gate_closed [100, 100]"
  by (simp_all add: gate_closed_iff)







text \<open>For a duration of 0 the slice \<open>[-0:]\<close> is the whole buffer.\<close>

lemma get_audio_chunk_zero_duration:
  "fst (get_audio_chunk (manager_with [100, 100]) 0) = Some [100 / 32768, 100 / 32768]"
  by (simp add: get_audio_chunk_eq manager_with_def slice_from_neg_def)

end
